theory Spec2Isabelle
  imports Main
begin

section \<open>The UART driver of UARTImplementation.cpp\<close>

text \<open>
  The class \<^verbatim>\<open>UART\<close> is a record of its data members; each member function takes the
  object and returns its result together with the object as the call leaves it. Every
  member function holds \<^verbatim>\<open>mtx\<close> for its whole body, so a call is one atomic step on the
  object; the only place where the lock is given up is \<^verbatim>\<open>cv.wait\<close> inside \<^verbatim>\<open>read\<close>.
\<close>

subsection \<open>Enumerations\<close>

text \<open>
  \<^verbatim>\<open>enum class UARTConfig\<close> has the underlying type \<^verbatim>\<open>int\<close>, so a value that is none of
  the four enumerators can be passed (\<^verbatim>\<open>static_cast<UARTConfig>(k)\<close>); such a value is what
  reaches the \<^verbatim>\<open>default\<close> label of the switch in \<^verbatim>\<open>configure\<close>. \<open>UNRECOGNIZED\<close> stands for
  any such value.
\<close>

datatype UARTConfig = BAUD_RATE | DATA_BITS | PARITY | STOP_BITS | UNRECOGNIZED

datatype UARTState = CLOSED | OPEN | CONFIGURED

datatype CommMethod = POLLING | INTERRUPT | DMA

subsection \<open>Exceptions and results\<close>

text \<open>The two exception classes the code throws, with the message passed to them.\<close>

datatype exception = runtime_error string | invalid_argument string

definition InvalidState :: exception where
  "InvalidState = runtime_error ''UART must be closed before configuration.''"

definition InvalidArgument :: exception where
  "InvalidArgument = invalid_argument ''Invalid UART configuration.''"

definition AlreadyOpen :: exception where
  "AlreadyOpen = runtime_error ''UART is already open.''"

definition NotConfigured :: exception where
  "NotConfigured = runtime_error ''UART must be configured before opening.''"

definition NotOpen :: exception where
  "NotOpen = runtime_error ''UART is not open.''"

text \<open>
  How a call ends: it returns a value, it throws, it stays suspended in \<^verbatim>\<open>cv.wait\<close>
  (the predicate is false), or it runs into undefined behaviour (an iterator moved before
  \<^verbatim>\<open>begin()\<close>, the end of a non-void function reached without \<^verbatim>\<open>return\<close>).
\<close>

datatype 'a result = Returns 'a | Raises exception | Blocks | UndefinedBehaviour

subsection \<open>The object\<close>

text \<open>
  \<^verbatim>\<open>commMethod\<close> is the one member the constructor does not initialise; \<open>None\<close> stands for
  its indeterminate value before the first successful \<^verbatim>\<open>open\<close>. \<^verbatim>\<open>mtx\<close> and \<^verbatim>\<open>cv\<close> carry no
  data.
\<close>

record UART =
  uartId :: int
  state :: UARTState
  baudRate :: int
  dataBits :: int
  parity :: bool
  stopBits :: int
  commMethod :: "CommMethod option"
  dataReady :: bool
  readBuffer :: "char list"

definition UART_ctor :: "int \<Rightarrow> UART" where
  "UART_ctor i = \<lparr>uartId = i, state = CLOSED, baudRate = 9600, dataBits = 8, parity = False,
     stopBits = 1, commMethod = None, dataReady = False, readBuffer = []\<rparr>"

subsection \<open>configure\<close>

fun UART_configure :: "UART \<Rightarrow> UARTConfig \<Rightarrow> int \<Rightarrow> unit result \<times> UART" where
  "UART_configure s config v =
     (if state s \<noteq> CLOSED then (Raises InvalidState, s)
      else case config of
        BAUD_RATE \<Rightarrow> (Returns (), s\<lparr>baudRate := v, state := CONFIGURED\<rparr>)
      | DATA_BITS \<Rightarrow> (Returns (), s\<lparr>dataBits := v, state := CONFIGURED\<rparr>)
      | PARITY \<Rightarrow> (Returns (), s\<lparr>parity := (v \<noteq> 0), state := CONFIGURED\<rparr>)
      | STOP_BITS \<Rightarrow> (Returns (), s\<lparr>stopBits := v, state := CONFIGURED\<rparr>)
      | UNRECOGNIZED \<Rightarrow> (Raises InvalidArgument, s))"

subsection \<open>open and close\<close>

text \<open>
  \<^verbatim>\<open>open\<close> detaches a thread running \<^verbatim>\<open>asyncRead\<close> or \<^verbatim>\<open>dmaRead\<close> for the two asynchronous
  methods and none for polling; the started thread is the value the model returns.
\<close>

datatype producer = AsyncRead | DmaRead

fun started :: "CommMethod \<Rightarrow> producer option" where
  "started INTERRUPT = Some AsyncRead"
| "started DMA = Some DmaRead"
| "started POLLING = None"

fun UART_open :: "UART \<Rightarrow> CommMethod \<Rightarrow> producer option result \<times> UART" where
  "UART_open s method =
     (if state s = OPEN then (Raises AlreadyOpen, s)
      else if state s \<noteq> CONFIGURED then (Raises NotConfigured, s)
      else (Returns (started method), s\<lparr>state := OPEN, commMethod := Some method\<rparr>))"

fun UART_close :: "UART \<Rightarrow> unit result \<times> UART" where
  "UART_close s =
     (if state s \<noteq> OPEN then (Raises NotOpen, s)
      else (Returns (), s\<lparr>state := CLOSED\<rparr>))"

subsection \<open>read\<close>

text \<open>
  \<^verbatim>\<open>static_cast<int>(readBuffer.size())\<close>: the size reduced to a 32-bit two's complement
  \<^verbatim>\<open>int\<close>.
\<close>

definition to_int32 :: "nat \<Rightarrow> int" where
  "to_int32 n = (int n + 2147483648) mod 4294967296 - 2147483648"

text \<open>
  The part of \<^verbatim>\<open>read\<close> from \<^verbatim>\<open>cv.wait(lock, [this] { return dataReady; })\<close> on, which is
  also what a suspended reader runs each time it is woken: with the predicate false it
  goes on waiting, otherwise it copies \<^verbatim>\<open>bytesRead\<close> bytes from the front of the buffer,
  erases them and clears the flag. The result is the bytes copied to the caller's buffer
  and \<^verbatim>\<open>bytesRead\<close>. A negative \<^verbatim>\<open>bytesRead\<close> moves the end iterator before \<^verbatim>\<open>begin()\<close>.
\<close>

fun UART_read_wait :: "UART \<Rightarrow> int \<Rightarrow> (char list \<times> int) result \<times> UART" where
  "UART_read_wait s len =
     (if \<not> dataReady s then (Blocks, s)
      else let bytesRead = min len (to_int32 (length (readBuffer s)))
           in if bytesRead < 0 then (UndefinedBehaviour, s)
              else (Returns (take (nat bytesRead) (readBuffer s), bytesRead),
                    s\<lparr>readBuffer := drop (nat bytesRead) (readBuffer s), dataReady := False\<rparr>))"

text \<open>
  The body of the \<^verbatim>\<open>if (commMethod == CommMethod::POLLING)\<close> statement is a comment only,
  so every method continues with the wait. (The state is Open only after \<^verbatim>\<open>open\<close> has
  assigned \<^verbatim>\<open>commMethod\<close>.)
\<close>

fun UART_read :: "UART \<Rightarrow> int \<Rightarrow> (char list \<times> int) result \<times> UART" where
  "UART_read s len =
     (if state s \<noteq> OPEN then (Raises NotOpen, s)
      else if commMethod s = Some POLLING then UART_read_wait s len
      else UART_read_wait s len)"

subsection \<open>write\<close>

text \<open>
  After the state check the body of \<^verbatim>\<open>write\<close> is a comment: control reaches the closing
  brace of a function returning \<^verbatim>\<open>int\<close> without a \<^verbatim>\<open>return\<close> statement.
\<close>

fun UART_write :: "UART \<Rightarrow> char list \<Rightarrow> int \<Rightarrow> int result \<times> UART" where
  "UART_write s data len =
     (if state s \<noteq> OPEN then (Raises NotOpen, s)
      else (UndefinedBehaviour, s))"

subsection \<open>Sequences of calls\<close>

text \<open>
  The member functions as one type of calls, and the two detached threads: one iteration
  of the loop of \<^verbatim>\<open>asyncRead\<close> or \<^verbatim>\<open>dmaRead\<close> tests the state and calls \<^verbatim>\<open>cv.notify_one()\<close>;
  its body assigns no member (\<open>None\<close>: the loop has ended).
\<close>

fun asyncRead :: "UART \<Rightarrow> UART option" where
  "asyncRead s = (if state s = OPEN then Some s else None)"

fun dmaRead :: "UART \<Rightarrow> UART option" where
  "dmaRead s = (if state s = OPEN then Some s else None)"

datatype call =
    Configure UARTConfig int
  | Open CommMethod
  | Close
  | Read int
  | Write "char list" int
  | Producer producer

fun ended :: "'a result \<Rightarrow> unit result" where
  "ended (Returns x) = Returns ()"
| "ended (Raises e) = Raises e"
| "ended Blocks = Blocks"
| "ended UndefinedBehaviour = UndefinedBehaviour"

fun perform :: "UART \<Rightarrow> call \<Rightarrow> unit result \<times> UART" where
  "perform s (Configure config v) = UART_configure s config v"
| "perform s (Open method) = (ended (fst (UART_open s method)), snd (UART_open s method))"
| "perform s Close = UART_close s"
| "perform s (Read len) = (ended (fst (UART_read s len)), snd (UART_read s len))"
| "perform s (Write data len) = (ended (fst (UART_write s data len)), snd (UART_write s data len))"
| "perform s (Producer AsyncRead) = (Returns (), case asyncRead s of Some s' \<Rightarrow> s' | None \<Rightarrow> s)"
| "perform s (Producer DmaRead) = (Returns (), case dmaRead s of Some s' \<Rightarrow> s' | None \<Rightarrow> s)"

text \<open>
  The object after a sequence of calls made by any threads, with the producer loops as the
  source has them: a caller whose call threw or is suspended leaves the object to the
  others, and a call that runs into undefined behaviour ends the execution (\<open>None\<close>): the
  program has no state after it.
\<close>

fun run :: "UART \<Rightarrow> call list \<Rightarrow> UART option" where
  "run s [] = Some s"
| "run s (c # cs) =
     (case perform s c of
        (UndefinedBehaviour, s') \<Rightarrow> None
      | (r, s') \<Rightarrow> run s' cs)"

text \<open>
  A \<^verbatim>\<open>try\<close> block of calls: the first call that does not return ends it.
\<close>

fun try_block :: "UART \<Rightarrow> call list \<Rightarrow> unit result \<times> UART" where
  "try_block s [] = (Returns (), s)"
| "try_block s (c # cs) =
     (case perform s c of
        (Returns u, s') \<Rightarrow> try_block s' cs
      | (r, s') \<Rightarrow> (r, s'))"

text \<open>The calls of \<^verbatim>\<open>main\<close> on \<^verbatim>\<open>UART uart(1)\<close>, with \<^verbatim>\<open>sizeof(buffer)\<close> and \<^verbatim>\<open>strlen(data)\<close>.\<close>

definition main_calls :: "call list" where
  "main_calls =
     [Configure BAUD_RATE 115200, Configure DATA_BITS 8, Configure PARITY 0,
      Configure STOP_BITS 1, Open INTERRUPT, Read 10, Write ''Hello, UART!'' 12, Close]"

subsection \<open>Delivery of received bytes\<close>

text \<open>
  Modelled from the spec: the receive-completion callback \<^verbatim>\<open>onBytes\<close> of the peripheral
  backend, which the source leaves as \<^verbatim>\<open>TODO - hardware interaction\<close> inside the loops of
  \<^verbatim>\<open>asyncRead\<close> and \<^verbatim>\<open>dmaRead\<close>. While the driver is Open it appends a chunk of at least one
  byte to the receive buffer, under the lock, and then signals that data is ready.
\<close>

definition onBytes :: "UART \<Rightarrow> char list \<Rightarrow> UART" where
  "onBytes s chunk =
     (if state s = OPEN \<and> chunk \<noteq> []
      then s\<lparr>readBuffer := readBuffer s @ chunk, dataReady := True\<rparr>
      else s)"

section \<open>Lifecycle preconditions\<close>

text \<open>
  C1: \<^verbatim>\<open>open\<close> fails with AlreadyOpen when the state is Open and with NotConfigured when it
  is Closed, and succeeds from Configured (recording the method and moving to Open);
  \<^verbatim>\<open>close\<close> and \<^verbatim>\<open>read\<close> each fail with NotOpen whenever the state is not Open. A failing
  call leaves the object as it was.
\<close>

theorem lifecycle_preconditions:
  "(state s = OPEN \<longrightarrow> UART_open s m = (Raises AlreadyOpen, s)) \<and>
   (state s = CLOSED \<longrightarrow> UART_open s m = (Raises NotConfigured, s)) \<and>
   (state s = CONFIGURED \<longrightarrow>
      UART_open s m = (Returns (started m), s\<lparr>state := OPEN, commMethod := Some m\<rparr>)) \<and>
   ((\<exists>r s'. UART_open s m = (Returns r, s')) \<longleftrightarrow> state s = CONFIGURED) \<and>
   (state s \<noteq> OPEN \<longrightarrow> UART_close s = (Raises NotOpen, s)) \<and>
   (state s \<noteq> OPEN \<longrightarrow> UART_read s len = (Raises NotOpen, s))"
  by (cases "state s") simp_all

theorem lifecycle_preconditions_witness:
  "state (UART_ctor 1) = CLOSED \<and>
   UART_open (UART_ctor 1) INTERRUPT = (Raises NotConfigured, UART_ctor 1) \<and>
   UART_close (UART_ctor 1) = (Raises NotOpen, UART_ctor 1) \<and>
   UART_read (UART_ctor 1) 10 = (Raises NotOpen, UART_ctor 1) \<and>
   state ((UART_ctor 1)\<lparr>state := CONFIGURED\<rparr>) = CONFIGURED \<and>
   UART_open ((UART_ctor 1)\<lparr>state := CONFIGURED\<rparr>) DMA =
     (Returns (Some DmaRead), (UART_ctor 1)\<lparr>state := OPEN, commMethod := Some DMA\<rparr>) \<and>
   UART_close ((UART_ctor 1)\<lparr>state := CONFIGURED\<rparr>) =
     (Raises NotOpen, (UART_ctor 1)\<lparr>state := CONFIGURED\<rparr>) \<and>
   state ((UART_ctor 1)\<lparr>state := OPEN\<rparr>) = OPEN \<and>
   UART_open ((UART_ctor 1)\<lparr>state := OPEN\<rparr>) POLLING =
     (Raises AlreadyOpen, (UART_ctor 1)\<lparr>state := OPEN\<rparr>)"
  using lifecycle_preconditions [of "UART_ctor 1" INTERRUPT 10]
    lifecycle_preconditions [of "(UART_ctor 1)\<lparr>state := CONFIGURED\<rparr>" DMA 10]
    lifecycle_preconditions [of "(UART_ctor 1)\<lparr>state := OPEN\<rparr>" POLLING 10]
  by (simp add: UART_ctor_def)

section \<open>Configuration\<close>

text \<open>
  C9: a successful \<^verbatim>\<open>configure(config, value)\<close> assigns the targeted configuration field
  and no other: the other three configuration fields and the driver id have the values
  they had before the call (and so have the method, the flag and the buffer).
\<close>

theorem configure_frame:
  assumes "UART_configure s c v = (Returns (), s')"
  shows "uartId s' = uartId s \<and>
    (c \<noteq> BAUD_RATE \<longrightarrow> baudRate s' = baudRate s) \<and>
    (c \<noteq> DATA_BITS \<longrightarrow> dataBits s' = dataBits s) \<and>
    (c \<noteq> PARITY \<longrightarrow> parity s' = parity s) \<and>
    (c \<noteq> STOP_BITS \<longrightarrow> stopBits s' = stopBits s) \<and>
    (c = BAUD_RATE \<longrightarrow> baudRate s' = v) \<and>
    (c = DATA_BITS \<longrightarrow> dataBits s' = v) \<and>
    (c = PARITY \<longrightarrow> parity s' = (v \<noteq> 0)) \<and>
    (c = STOP_BITS \<longrightarrow> stopBits s' = v) \<and>
    commMethod s' = commMethod s \<and> dataReady s' = dataReady s \<and>
    readBuffer s' = readBuffer s"
  using assms by (cases c) (auto split: if_splits)

theorem configure_frame_witness:
  "UART_configure (UART_ctor 1) DATA_BITS 7 =
     (Returns (), (UART_ctor 1)\<lparr>dataBits := 7, state := CONFIGURED\<rparr>) \<and>
   uartId ((UART_ctor 1)\<lparr>dataBits := 7, state := CONFIGURED\<rparr>) = 1 \<and>
   baudRate ((UART_ctor 1)\<lparr>dataBits := 7, state := CONFIGURED\<rparr>) = 9600 \<and>
   dataBits ((UART_ctor 1)\<lparr>dataBits := 7, state := CONFIGURED\<rparr>) = 7 \<and>
   parity ((UART_ctor 1)\<lparr>dataBits := 7, state := CONFIGURED\<rparr>) = False \<and>
   stopBits ((UART_ctor 1)\<lparr>dataBits := 7, state := CONFIGURED\<rparr>) = 1"
proof -
  have call: "UART_configure (UART_ctor 1) DATA_BITS 7 =
      (Returns (), (UART_ctor 1)\<lparr>dataBits := 7, state := CONFIGURED\<rparr>)"
    by (simp add: UART_ctor_def)
  from configure_frame [OF call] call show ?thesis
    by (simp add: UART_ctor_def)
qed

text \<open>
  C10: \<^verbatim>\<open>configure\<close> called on a Closed driver with an unrecognized parameter fails with
  InvalidArgument and changes nothing: the state is still Closed, not Configured, and the
  four configuration fields are as before.
\<close>

theorem configure_unrecognized_atomic:
  assumes "state s = CLOSED"
  shows "UART_configure s UNRECOGNIZED v = (Raises InvalidArgument, s) \<and>
    state (snd (UART_configure s UNRECOGNIZED v)) = CLOSED \<and>
    baudRate (snd (UART_configure s UNRECOGNIZED v)) = baudRate s \<and>
    dataBits (snd (UART_configure s UNRECOGNIZED v)) = dataBits s \<and>
    parity (snd (UART_configure s UNRECOGNIZED v)) = parity s \<and>
    stopBits (snd (UART_configure s UNRECOGNIZED v)) = stopBits s"
  using assms by simp

theorem configure_unrecognized_atomic_witness:
  "state (UART_ctor 1) = CLOSED \<and>
   UART_configure (UART_ctor 1) UNRECOGNIZED 5 = (Raises InvalidArgument, UART_ctor 1) \<and>
   state (snd (UART_configure (UART_ctor 1) UNRECOGNIZED 5)) = CLOSED"
proof -
  have closed: "state (UART_ctor 1) = CLOSED"
    by (simp add: UART_ctor_def)
  from configure_unrecognized_atomic [OF closed, of 5] closed show ?thesis
    by simp
qed

text \<open>
  C2: the specification has every \<^verbatim>\<open>configure\<close> call made before \<^verbatim>\<open>open\<close> succeed. In the code
  the first successful call leaves the state Configured, and the guard
  \<^verbatim>\<open>state != UARTState::CLOSED\<close> then rejects every further call: of any two consecutive
  calls the second throws and assigns nothing.
\<close>

theorem configure_after_configure_raises:
  assumes "UART_configure s c v = (Returns (), s')"
  shows "UART_configure s' c' v' = (Raises InvalidState, s')"
proof -
  from assms have "state s' = CONFIGURED"
    by (cases c) (auto split: if_splits)
  then show ?thesis by simp
qed

theorem configure_after_configure_raises_witness:
  "UART_configure (UART_ctor 1) BAUD_RATE 115200 =
     (Returns (), (UART_ctor 1)\<lparr>baudRate := 115200, state := CONFIGURED\<rparr>) \<and>
   UART_configure ((UART_ctor 1)\<lparr>baudRate := 115200, state := CONFIGURED\<rparr>) DATA_BITS 8 =
     (Raises InvalidState, (UART_ctor 1)\<lparr>baudRate := 115200, state := CONFIGURED\<rparr>)"
proof -
  have first: "UART_configure (UART_ctor 1) BAUD_RATE 115200 =
      (Returns (), (UART_ctor 1)\<lparr>baudRate := 115200, state := CONFIGURED\<rparr>)"
    by (simp add: UART_ctor_def)
  from configure_after_configure_raises [OF first, of DATA_BITS 8] first show ?thesis
    by simp
qed

text \<open>
  The \<^verbatim>\<open>try\<close> block of \<^verbatim>\<open>main\<close> makes four \<^verbatim>\<open>configure\<close> calls before \<^verbatim>\<open>open\<close>; it ends at the
  second one, with the baud rate set and nothing else done.
\<close>

lemma main_stops_at_second_configure:
  "try_block (UART_ctor 1) main_calls =
     (Raises InvalidState, (UART_ctor 1)\<lparr>baudRate := 115200, state := CONFIGURED\<rparr>)"
  by (simp add: main_calls_def UART_ctor_def)

section \<open>The flag \<^verbatim>\<open>dataReady\<close> is set by no member function\<close>

lemma run_ends_at_undefined_write: "state s = OPEN \<Longrightarrow> run s (Write data len # cs) = None"
  by simp

lemma perform_keeps_unready: "\<not> dataReady s \<Longrightarrow> \<not> dataReady (snd (perform s c))"
proof (cases c)
  case (Configure config v)
  then show "\<not> dataReady s \<Longrightarrow> ?thesis"
    by (cases config) simp_all
next
  case (Producer p)
  then show "\<not> dataReady s \<Longrightarrow> ?thesis"
    by (cases p) simp_all
qed simp_all

lemma run_keeps_unready: "\<not> dataReady s \<Longrightarrow> run s cs = Some s' \<Longrightarrow> \<not> dataReady s'"
proof (induction cs arbitrary: s)
  case Nil
  then show ?case by simp
next
  case (Cons c cs)
  obtain r t where step: "perform s c = (r, t)"
    by (cases "perform s c")
  from Cons.prems(1) have "\<not> dataReady (snd (perform s c))"
    by (rule perform_keeps_unready)
  with step have unready: "\<not> dataReady t"
    by simp
  from Cons.prems(2) step have "run t cs = Some s'"
    by (cases r) simp_all
  with unready show ?case
    by (rule Cons.IH)
qed

lemma ctor_run_unready: "run (UART_ctor i) cs = Some s' \<Longrightarrow> \<not> dataReady s'"
  by (rule run_keeps_unready [of "UART_ctor i"]) (simp_all add: UART_ctor_def)

text \<open>
  Hence, on a driver used through its member functions and the two producer loops as
  they are written, every \<^verbatim>\<open>read\<close> either throws NotOpen or is suspended.
\<close>

lemma read_after_calls:
  assumes "run (UART_ctor i) cs = Some s'"
  shows "UART_read s' len = (Raises NotOpen, s') \<or> UART_read s' len = (Blocks, s')"
  using ctor_run_unready [OF assms] by simp

lemma read_wait_unready: "\<not> dataReady s \<Longrightarrow> UART_read_wait s len = (Blocks, s)"
  by simp

lemma to_int32_small: "n < 2147483648 \<Longrightarrow> to_int32 n = int n"
  by (simp add: to_int32_def)

section \<open>Reading\<close>

text \<open>
  A \<^verbatim>\<open>read(buffer, length)\<close> on an Open driver whose flag is set (the condition the call
  waits for) removes exactly \<open>n = min length available\<close> bytes from the front of the
  receive buffer, returns them in buffer order together with their count, and leaves the
  remaining bytes, in order, in the buffer; the count is never more than \<open>length\<close>.
  The requested length is non-negative and the buffer holds fewer than \<open>2^31\<close> bytes.
\<close>

lemma read_drains_front:
  assumes "state s = OPEN" and "dataReady s" and "0 \<le> len"
    and "length (readBuffer s) < 2147483648"
    and "n = min (nat len) (length (readBuffer s))"
  shows "UART_read s len =
      (Returns (take n (readBuffer s), int n),
       s\<lparr>readBuffer := drop n (readBuffer s), dataReady := False\<rparr>) \<and>
    int n \<le> len \<and> length (take n (readBuffer s)) = n \<and>
    take n (readBuffer s) @ readBuffer (snd (UART_read s len)) = readBuffer s"
proof -
  have cast: "to_int32 (length (readBuffer s)) = int (length (readBuffer s))"
    using assms(4) by (rule to_int32_small)
  have count: "min len (int (length (readBuffer s))) = int n"
    using assms(3,5) by linarith
  have n: "nat (min len (int (length (readBuffer s)))) = n"
    by (simp only: count nat_int)
  have call: "UART_read s len =
      (Returns (take n (readBuffer s), int n),
       s\<lparr>readBuffer := drop n (readBuffer s), dataReady := False\<rparr>)"
    using assms(1,2) by (simp add: cast n count Let_def)
  have le: "int n \<le> len"
    using assms(3,5) by simp
  have len: "length (take n (readBuffer s)) = n"
    using assms(5) by simp
  show ?thesis
    using call le len by simp
qed

lemma read_drains_front_example:
  "UART_read \<lparr>uartId = 1, state = OPEN, baudRate = 115200, dataBits = 8, parity = False,
       stopBits = 1, commMethod = Some INTERRUPT, dataReady = True, readBuffer = ''Hi!''\<rparr> 2 =
     (Returns (''Hi'', 2),
      \<lparr>uartId = 1, state = OPEN, baudRate = 115200, dataBits = 8, parity = False,
       stopBits = 1, commMethod = Some INTERRUPT, dataReady = False, readBuffer = ''!''\<rparr>)"
  using read_drains_front [of "\<lparr>uartId = 1, state = OPEN, baudRate = 115200, dataBits = 8,
      parity = False, stopBits = 1, commMethod = Some INTERRUPT, dataReady = True,
      readBuffer = ''Hi!''\<rparr>" 2 2]
  by simp

text \<open>
  C3: the specification has every \<^verbatim>\<open>read\<close> on an Open driver with bytes available remove
  and return the first \<open>min maxLength available\<close> of them. In the code \<^verbatim>\<open>read\<close> waits for the
  flag \<^verbatim>\<open>dataReady\<close>, not for bytes: on an Open driver with bytes buffered and the flag false,
  which is how every read of fewer bytes than are buffered leaves the driver, \<^verbatim>\<open>read\<close> is
  suspended and removes and returns nothing.
\<close>

theorem read_waits_with_bytes_buffered:
  assumes "state s = OPEN" and "readBuffer s \<noteq> []" and "\<not> dataReady s"
  shows "UART_read s len = (Blocks, s) \<and>
    readBuffer (snd (UART_read s len)) = readBuffer s"
  using assms by simp

theorem read_waits_with_bytes_buffered_witness:
  "UART_read (onBytes
       (snd (try_block (UART_ctor 1) [Configure BAUD_RATE 115200, Open INTERRUPT])) ''Hi!'') 2 =
     (Returns (''Hi'', 2),
      (UART_ctor 1)\<lparr>baudRate := 115200, state := OPEN, commMethod := Some INTERRUPT,
        readBuffer := ''!''\<rparr>) \<and>
   readBuffer ((UART_ctor 1)\<lparr>baudRate := 115200, state := OPEN, commMethod := Some INTERRUPT,
        readBuffer := ''!''\<rparr>) = ''!'' \<and>
   UART_read ((UART_ctor 1)\<lparr>baudRate := 115200, state := OPEN, commMethod := Some INTERRUPT,
        readBuffer := ''!''\<rparr>) 10 =
     (Blocks, (UART_ctor 1)\<lparr>baudRate := 115200, state := OPEN, commMethod := Some INTERRUPT,
        readBuffer := ''!''\<rparr>)"
  using read_waits_with_bytes_buffered
    [of "(UART_ctor 1)\<lparr>baudRate := 115200, state := OPEN, commMethod := Some INTERRUPT,
        readBuffer := ''!''\<rparr>" 10]
  by (simp add: onBytes_def UART_ctor_def to_int32_def)

text \<open>
  C5: the specification has a read that leaves bytes in the buffer leave the ready
  condition set. In the code \<^verbatim>\<open>dataReady = false\<close> is assigned after every drain: a read
  of fewer bytes than are buffered leaves a non-empty buffer with the flag false, and the
  next read waits although bytes are there.
\<close>

theorem read_clears_flag_with_bytes_left:
  assumes "state s = OPEN" and "dataReady s" and "0 \<le> len"
    and "length (readBuffer s) < 2147483648"
    and "nat len < length (readBuffer s)"
  shows "readBuffer (snd (UART_read s len)) = drop (nat len) (readBuffer s) \<and>
    readBuffer (snd (UART_read s len)) \<noteq> [] \<and>
    \<not> dataReady (snd (UART_read s len)) \<and>
    UART_read (snd (UART_read s len)) len' = (Blocks, snd (UART_read s len))"
proof -
  have cast: "to_int32 (length (readBuffer s)) = int (length (readBuffer s))"
    using assms(4) by (rule to_int32_small)
  have count: "min len (int (length (readBuffer s))) = len"
    using assms(3,5) by simp
  have call: "snd (UART_read s len) =
      s\<lparr>readBuffer := drop (nat len) (readBuffer s), dataReady := False\<rparr>"
    using assms(1,2,3) by (simp add: cast count Let_def)
  let ?s' = "s\<lparr>readBuffer := drop (nat len) (readBuffer s), dataReady := False\<rparr>"
  have left: "readBuffer ?s' \<noteq> []"
    using assms(5) by simp
  have again: "UART_read ?s' len' = (Blocks, ?s')"
    using assms(1) by simp
  show ?thesis
    unfolding call using left again by simp
qed

theorem read_clears_flag_with_bytes_left_witness:
  "UART_read (onBytes
       (snd (try_block (UART_ctor 1) [Configure BAUD_RATE 115200, Open INTERRUPT])) ''Hi'') 1 =
     (Returns (''H'', 1),
      (UART_ctor 1)\<lparr>baudRate := 115200, state := OPEN, commMethod := Some INTERRUPT,
        readBuffer := ''i''\<rparr>) \<and>
   UART_read ((UART_ctor 1)\<lparr>baudRate := 115200, state := OPEN, commMethod := Some INTERRUPT,
        readBuffer := ''i''\<rparr>) 1 =
     (Blocks, (UART_ctor 1)\<lparr>baudRate := 115200, state := OPEN, commMethod := Some INTERRUPT,
        readBuffer := ''i''\<rparr>)"
  using read_clears_flag_with_bytes_left
    [of "onBytes
        (snd (try_block (UART_ctor 1) [Configure BAUD_RATE 115200, Open INTERRUPT])) ''Hi''" 1 1]
  by (simp add: onBytes_def UART_ctor_def to_int32_def)

text \<open>
  C6: the specification has \<^verbatim>\<open>read\<close> under the Polling method poll the backend itself,
  not wait on the data-ready condition, and return 0 bytes when nothing arrives in time.
  In the code the polling branch is empty and the wait follows for every method: a polling
  read with no data ready is suspended, and since no call sets the flag (and \<^verbatim>\<open>open\<close>
  starts no thread for polling) it is still suspended after any further calls that leave
  the program a state.
\<close>

theorem polling_read_blocks:
  assumes "state s = OPEN" and "commMethod s = Some POLLING" and "\<not> dataReady s"
  shows "UART_read s len = (Blocks, s) \<and>
    (\<forall>cs s'. run s cs = Some s' \<longrightarrow> UART_read_wait s' len = (Blocks, s'))"
proof -
  have first: "UART_read s len = (Blocks, s)"
    using assms by simp
  have later: "UART_read_wait s' len = (Blocks, s')" if "run s cs = Some s'" for cs s'
    using assms(3) that by (intro read_wait_unready) (rule run_keeps_unready)
  show ?thesis
    using first later by blast
qed

theorem polling_read_blocks_witness:
  "UART_open (snd (try_block (UART_ctor 1) [Configure BAUD_RATE 115200])) POLLING =
     (Returns None,
      (UART_ctor 1)\<lparr>baudRate := 115200, state := OPEN, commMethod := Some POLLING\<rparr>) \<and>
   UART_read ((UART_ctor 1)\<lparr>baudRate := 115200, state := OPEN, commMethod := Some POLLING\<rparr>) 10 =
     (Blocks, (UART_ctor 1)\<lparr>baudRate := 115200, state := OPEN, commMethod := Some POLLING\<rparr>) \<and>
   run ((UART_ctor 1)\<lparr>baudRate := 115200, state := OPEN, commMethod := Some POLLING\<rparr>)
       [Read 10, Producer AsyncRead] =
     Some ((UART_ctor 1)\<lparr>baudRate := 115200, state := OPEN, commMethod := Some POLLING\<rparr>) \<and>
   UART_read_wait
       ((UART_ctor 1)\<lparr>baudRate := 115200, state := OPEN, commMethod := Some POLLING\<rparr>) 10 =
     (Blocks, (UART_ctor 1)\<lparr>baudRate := 115200, state := OPEN, commMethod := Some POLLING\<rparr>)"
  using polling_read_blocks
    [of "(UART_ctor 1)\<lparr>baudRate := 115200, state := OPEN, commMethod := Some POLLING\<rparr>" 10]
  by (simp add: UART_ctor_def)

section \<open>Closing\<close>

text \<open>
  C4, as the specification states it: \<^verbatim>\<open>close\<close> would clear the recorded method, the flag and the
  buffered bytes. It does not: after \<^verbatim>\<open>configure\<close>, \<^verbatim>\<open>open(INTERRUPT)\<close> and \<^verbatim>\<open>close\<close> the method
  is still recorded, and two bytes delivered before \<^verbatim>\<open>close\<close> are still buffered and ready
  after it, and are returned by a \<^verbatim>\<open>read\<close> after the next \<^verbatim>\<open>configure\<close> and \<^verbatim>\<open>open\<close>.
\<close>

theorem close_clears_nothing:
  "fst (UART_close (snd (try_block (UART_ctor 1) [Configure BAUD_RATE 115200, Open INTERRUPT])))
     = Returns () \<and>
   commMethod (snd (UART_close
     (snd (try_block (UART_ctor 1) [Configure BAUD_RATE 115200, Open INTERRUPT]))))
     = Some INTERRUPT \<and>
   fst (UART_close (onBytes
     (snd (try_block (UART_ctor 1) [Configure BAUD_RATE 115200, Open INTERRUPT])) ''Hi''))
     = Returns () \<and>
   state (snd (UART_close (onBytes
     (snd (try_block (UART_ctor 1) [Configure BAUD_RATE 115200, Open INTERRUPT])) ''Hi'')))
     = CLOSED \<and>
   dataReady (snd (UART_close (onBytes
     (snd (try_block (UART_ctor 1) [Configure BAUD_RATE 115200, Open INTERRUPT])) ''Hi''))) \<and>
   readBuffer (snd (UART_close (onBytes
     (snd (try_block (UART_ctor 1) [Configure BAUD_RATE 115200, Open INTERRUPT])) ''Hi'')))
     = ''Hi'' \<and>
   fst (UART_read (snd (try_block (snd (UART_close (onBytes
       (snd (try_block (UART_ctor 1) [Configure BAUD_RATE 115200, Open INTERRUPT])) ''Hi'')))
     [Configure DATA_BITS 8, Open POLLING])) 10) = Returns (''Hi'', 2)"
  by (simp add: UART_ctor_def onBytes_def to_int32_def)

text \<open>
  C4, amended: \<^verbatim>\<open>close\<close> on an Open driver returns, sets the state to Closed and changes
  nothing else: the recorded method, the flag \<^verbatim>\<open>dataReady\<close> and the buffered bytes are what
  they were before the call.
\<close>

theorem close_only_sets_state:
  assumes "state s = OPEN"
  shows "UART_close s = (Returns (), s\<lparr>state := CLOSED\<rparr>) \<and>
    state (snd (UART_close s)) = CLOSED \<and>
    commMethod (snd (UART_close s)) = commMethod s \<and>
    dataReady (snd (UART_close s)) = dataReady s \<and>
    readBuffer (snd (UART_close s)) = readBuffer s"
  using assms by simp

theorem close_only_sets_state_witness:
  "state (onBytes
     (snd (try_block (UART_ctor 1) [Configure BAUD_RATE 115200, Open INTERRUPT])) ''Hi'') = OPEN \<and>
   UART_close (onBytes
     (snd (try_block (UART_ctor 1) [Configure BAUD_RATE 115200, Open INTERRUPT])) ''Hi'') =
     (Returns (),
      (UART_ctor 1)\<lparr>baudRate := 115200, state := CLOSED, commMethod := Some INTERRUPT,
        dataReady := True, readBuffer := ''Hi''\<rparr>)"
  using close_only_sets_state
    [of "onBytes
      (snd (try_block (UART_ctor 1) [Configure BAUD_RATE 115200, Open INTERRUPT])) ''Hi''"]
  by (simp add: UART_ctor_def onBytes_def)

text \<open>
  C8, as the specification states it: a \<^verbatim>\<open>read\<close> suspended when \<^verbatim>\<open>close\<close> is called would be woken
  and fail with NotOpen. In the code \<^verbatim>\<open>close\<close> notifies nobody, and a reader that is woken
  tests \<^verbatim>\<open>dataReady\<close> only: on the driver of \<^verbatim>\<open>main\<close>, opened for interrupts, the read is
  suspended, \<^verbatim>\<open>close\<close> returns, and the reader woken afterwards goes back to waiting.
\<close>

theorem blocked_read_survives_close:
  "UART_read (snd (try_block (UART_ctor 1) [Configure BAUD_RATE 115200, Open INTERRUPT])) 10 =
     (Blocks, snd (try_block (UART_ctor 1) [Configure BAUD_RATE 115200, Open INTERRUPT])) \<and>
   fst (UART_close (snd (try_block (UART_ctor 1) [Configure BAUD_RATE 115200, Open INTERRUPT])))
     = Returns () \<and>
   state (snd (UART_close
     (snd (try_block (UART_ctor 1) [Configure BAUD_RATE 115200, Open INTERRUPT])))) = CLOSED \<and>
   UART_read_wait (snd (UART_close
       (snd (try_block (UART_ctor 1) [Configure BAUD_RATE 115200, Open INTERRUPT])))) 10 =
     (Blocks, snd (UART_close
       (snd (try_block (UART_ctor 1) [Configure BAUD_RATE 115200, Open INTERRUPT])))) \<and>
   fst (UART_read_wait (snd (UART_close
       (snd (try_block (UART_ctor 1) [Configure BAUD_RATE 115200, Open INTERRUPT])))) 10)
     \<noteq> Raises NotOpen"
  by (simp add: UART_ctor_def)

text \<open>
  C8, amended: when \<^verbatim>\<open>close\<close> is called while a \<^verbatim>\<open>read\<close> is suspended (the driver Open, the
  flag false), \<^verbatim>\<open>close\<close> returns and sets the state to Closed; a reader woken after that
  tests the flag only, not the state: with the flag false it goes back to waiting, and in
  no state does a woken reader throw.
\<close>

theorem woken_read_ignores_close:
  assumes "state s = OPEN" and "\<not> dataReady s"
  shows "UART_read s len = (Blocks, s) \<and>
    UART_close s = (Returns (), s\<lparr>state := CLOSED\<rparr>) \<and>
    UART_read_wait (s\<lparr>state := CLOSED\<rparr>) len = (Blocks, s\<lparr>state := CLOSED\<rparr>) \<and>
    (\<forall>t e. fst (UART_read_wait t len) \<noteq> Raises e)"
proof -
  have suspended: "UART_read s len = (Blocks, s)"
    using assms by simp
  have closed: "UART_close s = (Returns (), s\<lparr>state := CLOSED\<rparr>)"
    using assms(1) by simp
  have woken: "UART_read_wait (s\<lparr>state := CLOSED\<rparr>) len = (Blocks, s\<lparr>state := CLOSED\<rparr>)"
    using assms(2) by simp
  have no_throw: "fst (UART_read_wait t len) \<noteq> Raises e" for t e
    by (simp add: Let_def)
  show ?thesis
    using suspended closed woken no_throw by blast
qed

theorem woken_read_ignores_close_witness:
  "UART_read ((UART_ctor 1)\<lparr>state := OPEN, commMethod := Some DMA\<rparr>) 10 =
     (Blocks, (UART_ctor 1)\<lparr>state := OPEN, commMethod := Some DMA\<rparr>) \<and>
   UART_close ((UART_ctor 1)\<lparr>state := OPEN, commMethod := Some DMA\<rparr>) =
     (Returns (), (UART_ctor 1)\<lparr>state := CLOSED, commMethod := Some DMA\<rparr>) \<and>
   UART_read_wait ((UART_ctor 1)\<lparr>state := CLOSED, commMethod := Some DMA\<rparr>) 10 =
     (Blocks, (UART_ctor 1)\<lparr>state := CLOSED, commMethod := Some DMA\<rparr>)"
  using woken_read_ignores_close
    [of "(UART_ctor 1)\<lparr>state := OPEN, commMethod := Some DMA\<rparr>" 10]
  by (simp add: UART_ctor_def)

section \<open>Writing\<close>

text \<open>
  C7: the specification has \<^verbatim>\<open>write\<close> on an Open driver make one transmit attempt and
  return the number of bytes accepted, at most the requested length. In the code \<^verbatim>\<open>write\<close>
  on a driver that is not Open throws NotOpen, as specified; on an Open driver it transmits
  nothing and reaches the end of the function without returning a count.
\<close>

theorem write_returns_no_count:
  "(state s \<noteq> OPEN \<longrightarrow> UART_write s data len = (Raises NotOpen, s)) \<and>
   (state s = OPEN \<longrightarrow> UART_write s data len = (UndefinedBehaviour, s))"
  by simp

theorem write_returns_no_count_witness:
  "UART_write (UART_ctor 1) ''Hello, UART!'' 12 = (Raises NotOpen, UART_ctor 1) \<and>
   UART_write ((UART_ctor 1)\<lparr>baudRate := 115200, state := OPEN, commMethod := Some INTERRUPT\<rparr>)
       ''Hello, UART!'' 12 =
     (UndefinedBehaviour,
      (UART_ctor 1)\<lparr>baudRate := 115200, state := OPEN, commMethod := Some INTERRUPT\<rparr>)"
  using write_returns_no_count [of "UART_ctor 1" "''Hello, UART!''" 12]
    write_returns_no_count
      [of "(UART_ctor 1)\<lparr>baudRate := 115200, state := OPEN, commMethod := Some INTERRUPT\<rparr>"
        "''Hello, UART!''" 12]
  by (simp add: UART_ctor_def)

end
